theory Spec2Isabelle
  imports Complex_Main
begin

section \<open>Python values and exceptions\<close>

text \<open>
  The retrieval service answers in JSON and the code handles the decoded value as
  \<^verbatim>\<open>Dict[str, Any]\<close>, so the model keeps the dynamic type: a dictionary is an
  association list (looked up with \<open>map_of\<close>), a \<^verbatim>\<open>str\<close> is a \<open>string\<close> with one
  \<open>char\<close> standing for one character of the Python string, and a float is a real.
\<close>

datatype pyval =
    PNone
  | PBool bool
  | PInt int
  | PFloat real
  | PStr string
  | PList "pyval list"
  | PDict "(string \<times> pyval) list"

datatype exn =
    TypeError
  | AttributeError
  | IndexError
  | KeyError
  | RequestException
  | HTTPError
  | JSONDecodeError
  | OpenAIError

text \<open>\<^verbatim>\<open>d.get(key, default)\<close> on a dictionary.\<close>

definition dict_get :: "(string \<times> pyval) list \<Rightarrow> string \<Rightarrow> pyval \<Rightarrow> pyval" where
  "dict_get d k dflt = (case map_of d k of None \<Rightarrow> dflt | Some v \<Rightarrow> v)"

text \<open>\<^verbatim>\<open>not x\<close> is \<open>\<not> truthy x\<close>.\<close>

fun truthy :: "pyval \<Rightarrow> bool" where
  "truthy PNone = False"
| "truthy (PBool b) = b"
| "truthy (PInt n) = (n \<noteq> 0)"
| "truthy (PFloat x) = (x \<noteq> 0)"
| "truthy (PStr s) = (s \<noteq> [])"
| "truthy (PList xs) = (xs \<noteq> [])"
| "truthy (PDict d) = (d \<noteq> [])"

fun is_substring :: "string \<Rightarrow> string \<Rightarrow> bool" where
  "is_substring p [] = (p = [])"
| "is_substring p (c # s) = (take (length p) (c # s) = p \<or> is_substring p s)"

text \<open>\<^verbatim>\<open>key in x\<close> for a string key: keys of a dictionary, elements of a list,
  substrings of a string; any other JSON value raises \<^verbatim>\<open>TypeError\<close>.\<close>

fun py_contains :: "pyval \<Rightarrow> string \<Rightarrow> exn + bool" where
  "py_contains (PDict d) k = Inr (k \<in> set (map fst d))"
| "py_contains (PList xs) k = Inr (PStr k \<in> set xs)"
| "py_contains (PStr s) k = Inr (is_substring k s)"
| "py_contains _ k = Inl TypeError"

text \<open>\<^verbatim>\<open>x[key]\<close> and \<^verbatim>\<open>x[key] = v\<close> for a string key.\<close>

fun py_getitem :: "pyval \<Rightarrow> string \<Rightarrow> exn + pyval" where
  "py_getitem (PDict d) k = (case map_of d k of None \<Rightarrow> Inl KeyError | Some v \<Rightarrow> Inr v)"
| "py_getitem _ k = Inl TypeError"

fun py_setitem :: "pyval \<Rightarrow> string \<Rightarrow> pyval \<Rightarrow> exn + pyval" where
  "py_setitem (PDict d) k v =
     Inr (PDict (if k \<in> set (map fst d) then map (\<lambda>(k', v'). if k' = k then (k', v) else (k', v')) d
                 else d @ [(k, v)]))"
| "py_setitem _ k v = Inl TypeError"

text \<open>The items a \<^verbatim>\<open>for\<close> loop sees: the elements of a list, the characters of a
  string, the keys of a dictionary; other JSON values are not iterable.\<close>

fun py_iter :: "pyval \<Rightarrow> exn + pyval list" where
  "py_iter (PList xs) = Inr xs"
| "py_iter (PStr s) = Inr (map (\<lambda>c. PStr [c]) s)"
| "py_iter (PDict d) = Inr (map (\<lambda>kv. PStr (fst kv)) d)"
| "py_iter _ = Inl TypeError"

text \<open>\<^verbatim>\<open>str(n)\<close> for a natural number, and \<^verbatim>\<open>sep.join(parts)\<close>.\<close>

fun str_nat :: "nat \<Rightarrow> string" where
  "str_nat n =
     (if n < 10 then [''0123456789'' ! n]
      else str_nat (n div 10) @ [''0123456789'' ! (n mod 10)])"

declare str_nat.simps [simp del]

fun join :: "string \<Rightarrow> string list \<Rightarrow> string" where
  "join sep [] = []"
| "join sep [x] = x"
| "join sep (x # y # ys) = x @ sep @ join sep (y # ys)"

definition nl :: string where
  "nl = [CHR 0x0A]"

section \<open>Configuration (app/config.py)\<close>

record config =
  RAGIE_API_TOKEN :: "string option"
  RAGIE_SERVER_URL :: string
  OPENAI_API_KEY :: "string option"
  OPENAI_MODEL :: string
  API_ENV :: string
  API_SECRET_KEY :: string

text \<open>\<^verbatim>\<open>not v\<close> for an \<^verbatim>\<open>Optional[str]\<close> read from the environment.\<close>

definition unset :: "string option \<Rightarrow> bool" where
  "unset v = (case v of None \<Rightarrow> True | Some s \<Rightarrow> s = [])"

definition validate_config :: "config \<Rightarrow> bool \<times> string option" where
  "validate_config cfg =
     (if unset (RAGIE_API_TOKEN cfg) then
        (False, Some ''RAGIE_API_TOKEN is not set in environment variables'')
      else if unset (OPENAI_API_KEY cfg) then
        (False, Some ''OPENAI_API_KEY is not set in environment variables'')
      else if API_ENV cfg = ''production'' \<and> API_SECRET_KEY cfg = ''dev-key-change-in-production'' then
        (False, Some ''API_SECRET_KEY should be changed in production environment'')
      else (True, None))"

text \<open>\<^verbatim>\<open>f"{v}"\<close> for an \<^verbatim>\<open>Optional[str]\<close>.\<close>

definition str_opt :: "string option \<Rightarrow> string" where
  "str_opt v = (case v of None \<Rightarrow> ''None'' | Some s \<Rightarrow> s)"

section \<open>The external services\<close>

text \<open>
  The two collaborators are parameters of the model. A call to either is recorded, so
  that "is never contacted" is a statement about the list of calls a function made.
\<close>

record payload =
  p_query :: string
  p_partition :: string
  p_top_k :: int
  p_rerank :: bool
  p_recency_bias :: bool

record retrieval_request =
  url :: string
  json_payload :: payload
  headers :: "(string \<times> string) list"

record http_response =
  status_code :: nat
  body :: "pyval option"

record completion_request =
  model :: string
  messages :: "(string \<times> string) list"

datatype ext_call =
    RetrievalPost retrieval_request
  | ChatCreate completion_request

type_synonym requests_post = "retrieval_request \<Rightarrow> exn + http_response"

text \<open>A completion is the list of the contents of its choices' messages.\<close>

type_synonym chat_create = "completion_request \<Rightarrow> exn + pyval list"

definition raise_for_status :: "http_response \<Rightarrow> exn + unit" where
  "raise_for_status response =
     (if 400 \<le> status_code response \<and> status_code response < 600 then Inl HTTPError else Inr ())"

definition json :: "http_response \<Rightarrow> exn + pyval" where
  "json response = (case body response of None \<Rightarrow> Inl JSONDecodeError | Some v \<Rightarrow> Inr v)"

section \<open>Retrieval (app/ragie_client.py, retrieve_chunks)\<close>

text \<open>The local \<^verbatim>\<open>partition = f"client_{client_id}"\<close> of \<^verbatim>\<open>retrieve_chunks\<close>,
  \<^verbatim>\<open>upload_document\<close> and \<^verbatim>\<open>list_documents\<close>.\<close>

definition partition_scope :: "string \<Rightarrow> string" where
  "partition_scope client_id = ''client_'' @ client_id"

definition retrieval_request_of :: "config \<Rightarrow> string \<Rightarrow> string \<Rightarrow> int \<Rightarrow> retrieval_request" where
  "retrieval_request_of cfg q client_id top_k =
     \<lparr> url = RAGIE_SERVER_URL cfg @ ''/retrievals'',
       json_payload = \<lparr> p_query = q, p_partition = partition_scope client_id, p_top_k = top_k,
                        p_rerank = True, p_recency_bias = True \<rparr>,
       headers = [(''Content-Type'', ''application/json''),
                  (''accept'', ''application/json''),
                  (''Authorization'', ''Bearer '' @ str_opt (RAGIE_API_TOKEN cfg))] \<rparr>"

text \<open>\<^verbatim>\<open>if "scored_chunks" in result and "chunks" not in result:
    result["chunks"] = result["scored_chunks"]\<close>\<close>

definition map_scored_chunks :: "pyval \<Rightarrow> exn + pyval" where
  "map_scored_chunks result =
     (case py_contains result ''scored_chunks'' of
        Inl e \<Rightarrow> Inl e
      | Inr False \<Rightarrow> Inr result
      | Inr True \<Rightarrow>
          (case py_contains result ''chunks'' of
             Inl e \<Rightarrow> Inl e
           | Inr True \<Rightarrow> Inr result
           | Inr False \<Rightarrow>
               (case py_getitem result ''scored_chunks'' of
                  Inl e \<Rightarrow> Inl e
                | Inr v \<Rightarrow> py_setitem result ''chunks'' v)))"

text \<open>The body of the \<^verbatim>\<open>try\<close> block.\<close>

definition retrieve_chunks_try :: "requests_post \<Rightarrow> retrieval_request \<Rightarrow> exn + pyval" where
  "retrieve_chunks_try post req =
     (case post req of
        Inl e \<Rightarrow> Inl e
      | Inr response \<Rightarrow>
          (case raise_for_status response of
             Inl e \<Rightarrow> Inl e
           | Inr _ \<Rightarrow>
               (case json response of
                  Inl e \<Rightarrow> Inl e
                | Inr result \<Rightarrow> map_scored_chunks result)))"

text \<open>The whole function: \<^verbatim>\<open>except Exception\<close> returns \<^verbatim>\<open>{"chunks": []}\<close>.\<close>

definition retrieve_chunks ::
  "config \<Rightarrow> requests_post \<Rightarrow> string \<Rightarrow> string \<Rightarrow> int \<Rightarrow> (exn + pyval) \<times> ext_call list" where
  "retrieve_chunks cfg post q client_id top_k =
     (let req = retrieval_request_of cfg q client_id top_k in
        ((case retrieve_chunks_try post req of
            Inl e \<Rightarrow> Inr (PDict [(''chunks'', PList [])])
          | Inr result \<Rightarrow> Inr result),
         [RetrievalPost req]))"

section \<open>Answer generation (app/ragie_client.py, generate_response)\<close>

text \<open>
  A citation is the dictionary literal built in the loop; \<open>cit_id\<close> and \<open>cit_text\<close>
  are its keys \<^verbatim>\<open>"id"\<close> and \<^verbatim>\<open>"text"\<close>, the other fields carry the key's name.
\<close>

record citation =
  cit_id :: int
  document_id :: pyval
  chunk_id :: pyval
  cit_text :: string
  page_number :: pyval
  score :: pyval

text \<open>
  One iteration of \<^verbatim>\<open>for i, chunk in enumerate(chunks)\<close>: the context part and the
  citation it appends. \<^verbatim>\<open>chunk.get\<close> raises \<^verbatim>\<open>AttributeError\<close> on anything but a
  dictionary. The f-string accepts any value, but \<^verbatim>\<open>chunk.get("text", "")[:100] + "..."\<close>
  raises right after it unless the text is a \<^verbatim>\<open>str\<close>, so only a \<^verbatim>\<open>str\<close> is ever
  formatted into a part that survives.
\<close>

definition loop_body :: "nat \<Rightarrow> pyval \<Rightarrow> exn + (string \<times> citation)" where
  "loop_body i chunk =
     (case chunk of
        PDict d \<Rightarrow>
          (case dict_get d ''text'' (PStr []) of
             PStr t \<Rightarrow>
               Inr (''['' @ str_nat (i + 1) @ ''] '' @ t,
                    \<lparr> cit_id = int i + 1,
                      document_id = dict_get d ''document_id'' PNone,
                      chunk_id = dict_get d ''chunk_id'' PNone,
                      cit_text = take 100 t @ ''...'',
                      page_number = dict_get d ''page_number'' (PStr ''N/A''),
                      score = dict_get d ''score'' (PInt 0) \<rparr>)
           | _ \<Rightarrow> Inl TypeError)
      | _ \<Rightarrow> Inl AttributeError)"

text \<open>The loop, from index \<open>i\<close> on, appending to \<^verbatim>\<open>context_parts\<close> and
  \<^verbatim>\<open>citations\<close>; an exception of the body leaves the loop.\<close>

fun loop :: "nat \<Rightarrow> pyval list \<Rightarrow> string list \<Rightarrow> citation list \<Rightarrow> exn + (string list \<times> citation list)" where
  "loop i [] context_parts citations = Inr (context_parts, citations)"
| "loop i (chunk # rest) context_parts citations =
     (case loop_body i chunk of
        Inl e \<Rightarrow> Inl e
      | Inr (part, cit) \<Rightarrow> loop (Suc i) rest (context_parts @ [part]) (citations @ [cit]))"

text \<open>The citation list the loop builds for a sequence of chunks.\<close>

definition build_citations :: "pyval list \<Rightarrow> exn + citation list" where
  "build_citations chunks =
     (case loop 0 chunks [] [] of Inl e \<Rightarrow> Inl e | Inr (context_parts, citations) \<Rightarrow> Inr citations)"

definition system_prompt :: string where
  "system_prompt =
     ''You are a helpful assistant that answers questions based on the provided context.'' @ nl @
     ''Always include citations to your sources using the format [n] where n is the citation number.'' @ nl @
     ''If the answer cannot be found in the context, state that clearly.''"

definition user_prompt :: "string \<Rightarrow> string \<Rightarrow> string" where
  "user_prompt context q =
     ''Context:'' @ nl @ context @ nl @ nl @
     ''Question: '' @ q @ nl @ nl @
     ''Answer the question based on the context provided. Use citations in the format [n] to reference your sources.''"

record answer_result =
  answer :: pyval
  citations :: "citation list"

definition generate_response ::
  "config \<Rightarrow> chat_create \<Rightarrow> string \<Rightarrow> pyval \<Rightarrow> (exn + answer_result) \<times> ext_call list" where
  "generate_response cfg create q chunks =
     (case py_iter chunks of
        Inl e \<Rightarrow> (Inl e, [])
      | Inr items \<Rightarrow>
          (case loop 0 items [] [] of
             Inl e \<Rightarrow> (Inl e, [])
           | Inr (context_parts, cits) \<Rightarrow>
               (let context = join (nl @ nl) context_parts;
                    req = \<lparr> model = OPENAI_MODEL cfg,
                            messages = [(''system'', system_prompt),
                                        (''user'', user_prompt context q)] \<rparr>
                in ((case create req of
                       Inl e \<Rightarrow> Inl e
                     | Inr choices \<Rightarrow>
                         (case choices of
                            [] \<Rightarrow> Inl IndexError
                          | content # _ \<Rightarrow> Inr \<lparr> answer = content, citations = cits \<rparr>)),
                    [ChatCreate req]))))"

section \<open>The query endpoint (app/main.py)\<close>

text \<open>\<^verbatim>\<open>detail=str(e)\<close> is kept as the exception it was made from.\<close>

datatype detail = StrOf exn | Msg string

datatype api_error =
    HTTPException nat detail
  | RequestValidationError

text \<open>The validated request model \<^verbatim>\<open>QueryRequest\<close>.\<close>

record QueryRequest =
  req_query :: string
  req_client_id :: string
  req_top_k :: int

text \<open>\<^verbatim>\<open>retrieval_result.get("chunks", retrieval_result.get("scored_chunks", []))\<close>\<close>

definition extract_chunks :: "pyval \<Rightarrow> exn + pyval" where
  "extract_chunks retrieval_result =
     (case retrieval_result of
        PDict d \<Rightarrow> Inr (dict_get d ''chunks'' (dict_get d ''scored_chunks'' (PList [])))
      | _ \<Rightarrow> Inl AttributeError)"

definition no_relevant_information :: answer_result where
  "no_relevant_information =
     \<lparr> answer = PStr ''No relevant information found for your query.'', citations = [] \<rparr>"

text \<open>The handler: every exception of its body becomes \<^verbatim>\<open>HTTPException(500)\<close>.\<close>

definition query ::
  "config \<Rightarrow> requests_post \<Rightarrow> chat_create \<Rightarrow> QueryRequest \<Rightarrow> (api_error + answer_result) \<times> ext_call list" where
  "query cfg post create request =
     (case retrieve_chunks cfg post (req_query request) (req_client_id request) (req_top_k request) of
        (Inl e, calls) \<Rightarrow> (Inl (HTTPException 500 (StrOf e)), calls)
      | (Inr retrieval_result, calls) \<Rightarrow>
          (case extract_chunks retrieval_result of
             Inl e \<Rightarrow> (Inl (HTTPException 500 (StrOf e)), calls)
           | Inr chunks \<Rightarrow>
               if \<not> truthy chunks then (Inr no_relevant_information, calls)
               else
                 (case generate_response cfg create (req_query request) chunks of
                    (Inl e, calls') \<Rightarrow> (Inl (HTTPException 500 (StrOf e)), calls @ calls')
                  | (Inr response, calls') \<Rightarrow> (Inr response, calls @ calls'))))"

definition verify_config :: "config \<Rightarrow> api_error + bool" where
  "verify_config cfg =
     (case validate_config cfg of
        (True, _) \<Rightarrow> Inr True
      | (False, error_message) \<Rightarrow>
          Inl (HTTPException 500 (Msg (''Server configuration error: '' @ str_opt error_message))))"

text \<open>
  The JSON body of a request before validation: a field is absent or has a value of
  the declared type. \<^verbatim>\<open>query\<close> and \<^verbatim>\<open>client_id\<close> are declared without a default, so
  the request model requires them; \<^verbatim>\<open>top_k\<close> defaults to 8. No field carries a
  constraint on its value.
\<close>

record raw_body =
  raw_query :: "string option"
  raw_client_id :: "string option"
  raw_top_k :: "int option"

definition validate_QueryRequest :: "raw_body \<Rightarrow> QueryRequest option" where
  "validate_QueryRequest raw =
     (case raw_query raw of
        None \<Rightarrow> None
      | Some q \<Rightarrow>
          (case raw_client_id raw of
             None \<Rightarrow> None
           | Some c \<Rightarrow>
               Some \<lparr> req_query = q, req_client_id = c,
                      req_top_k = (case raw_top_k raw of None \<Rightarrow> 8 | Some k \<Rightarrow> k) \<rparr>))"

text \<open>\<^verbatim>\<open>POST /query\<close>: the \<^verbatim>\<open>verify_config\<close> dependency and the validation of the
  body both precede the handler.\<close>

definition query_endpoint ::
  "config \<Rightarrow> requests_post \<Rightarrow> chat_create \<Rightarrow> raw_body \<Rightarrow> (api_error + answer_result) \<times> ext_call list" where
  "query_endpoint cfg post create raw =
     (case verify_config cfg of
        Inl e \<Rightarrow> (Inl e, [])
      | Inr _ \<Rightarrow>
          (case validate_QueryRequest raw of
             None \<Rightarrow> (Inl RequestValidationError, [])
           | Some request \<Rightarrow> query cfg post create request))"

text \<open>The calls to the language model among the calls made.\<close>

fun is_chat_create :: "ext_call \<Rightarrow> bool" where
  "is_chat_create (ChatCreate _) = True"
| "is_chat_create (RetrievalPost _) = False"

text \<open>A passage: a dictionary whose text, when it has one, is a string.\<close>

definition is_passage :: "pyval \<Rightarrow> bool" where
  "is_passage chunk =
     (case chunk of
        PDict d \<Rightarrow> (case map_of d ''text'' of None \<Rightarrow> True | Some (PStr _) \<Rightarrow> True | Some _ \<Rightarrow> False)
      | _ \<Rightarrow> False)"

text \<open>A failure of the retrieval call: \<^verbatim>\<open>requests.post\<close> raises (network), the
  status is an error status, or the body does not decode (service).\<close>

definition service_failure :: "requests_post \<Rightarrow> retrieval_request \<Rightarrow> bool" where
  "service_failure post req =
     (case post req of
        Inl e \<Rightarrow> True
      | Inr response \<Rightarrow> (400 \<le> status_code response \<and> status_code response < 600) \<or> body response = None)"

section \<open>Example inputs\<close>

definition example_config :: config where
  "example_config =
     \<lparr> RAGIE_API_TOKEN = Some ''token'', RAGIE_SERVER_URL = ''https://api.ragie.ai'',
       OPENAI_API_KEY = Some ''key'', OPENAI_MODEL = ''gpt-4o'',
       API_ENV = ''development'', API_SECRET_KEY = ''dev-key-change-in-production'' \<rparr>"

definition post_network_error :: requests_post where
  "post_network_error req = Inl RequestException"

definition post_no_chunks :: requests_post where
  "post_no_chunks req = Inr \<lparr> status_code = 200, body = Some (PDict [(''scored_chunks'', PList [])]) \<rparr>"

definition example_chunks :: "pyval list" where
  "example_chunks =
     [PDict [(''text'', PStr ''Refunds are issued within 30 days.''), (''score'', PFloat 0.9)],
      PDict [(''text'', PStr ''''), (''document_id'', PStr ''doc-2''), (''page_number'', PNone)]]"

definition post_two_chunks :: requests_post where
  "post_two_chunks req = Inr \<lparr> status_code = 200, body = Some (PDict [(''scored_chunks'', PList example_chunks)]) \<rparr>"

definition create_fails :: chat_create where
  "create_fails req = Inl OpenAIError"

definition example_request :: QueryRequest where
  "example_request = \<lparr> req_query = ''What is the refund policy?'', req_client_id = ''client1'', req_top_k = 8 \<rparr>"

section \<open>Properties of the citation loop\<close>

text \<open>An iteration returns exactly on a passage, and then the citation is the
  dictionary literal of the source.\<close>

lemma loop_body_passage:
  assumes "is_passage chunk"
  shows "\<exists>d t. chunk = PDict d \<and> dict_get d ''text'' (PStr []) = PStr t \<and>
     loop_body i chunk =
       Inr (''['' @ str_nat (i + 1) @ ''] '' @ t,
            \<lparr> cit_id = int i + 1,
              document_id = dict_get d ''document_id'' PNone,
              chunk_id = dict_get d ''chunk_id'' PNone,
              cit_text = take 100 t @ ''...'',
              page_number = dict_get d ''page_number'' (PStr ''N/A''),
              score = dict_get d ''score'' (PInt 0) \<rparr>)"
  using assms
  by (auto simp: is_passage_def loop_body_def dict_get_def split: pyval.splits option.splits)

lemma loop_body_Inr:
  assumes "loop_body i chunk = Inr (part, cit)"
  shows "is_passage chunk"
  using assms
  by (auto simp: is_passage_def loop_body_def dict_get_def split: pyval.splits option.splits)

lemma loop_passages:
  assumes "\<forall>c\<in>set chunks. is_passage c"
  shows "\<exists>parts cits. loop i chunks cp cs = Inr (cp @ parts, cs @ cits) \<and>
           length parts = length chunks \<and> length cits = length chunks \<and>
           (\<forall>j<length chunks. loop_body (i + j) (chunks ! j) = Inr (parts ! j, cits ! j))"
  using assms
proof (induction chunks arbitrary: i cp cs)
  case Nil
  then show ?case by simp
next
  case (Cons c rest)
  from Cons.prems have "is_passage c" by simp
  then obtain part cit where b: "loop_body i c = Inr (part, cit)"
    using loop_body_passage [of c i] by blast
  from Cons.prems have "\<forall>c\<in>set rest. is_passage c" by simp
  from Cons.IH [OF this, of "Suc i" "cp @ [part]" "cs @ [cit]"]
  obtain parts cits where r:
    "loop (Suc i) rest (cp @ [part]) (cs @ [cit]) = Inr ((cp @ [part]) @ parts, (cs @ [cit]) @ cits)"
    "length parts = length rest" "length cits = length rest"
    "\<forall>j<length rest. loop_body (Suc i + j) (rest ! j) = Inr (parts ! j, cits ! j)"
    by blast
  have "\<forall>j<length (c # rest). loop_body (i + j) ((c # rest) ! j) = Inr ((part # parts) ! j, (cit # cits) ! j)"
  proof (intro allI impI)
    fix j assume "j < length (c # rest)"
    then show "loop_body (i + j) ((c # rest) ! j) = Inr ((part # parts) ! j, (cit # cits) ! j)"
      using b r(4) by (cases j) auto
  qed
  with b r show ?case
    by (intro exI [of _ "part # parts"] exI [of _ "cit # cits"]) simp
qed

lemma loop_Inr_passages:
  assumes "loop i chunks cp cs = Inr res"
  shows "\<forall>c\<in>set chunks. is_passage c"
  using assms
proof (induction chunks arbitrary: i cp cs)
  case Nil
  then show ?case by simp
next
  case (Cons c rest)
  then show ?case
    by (auto split: sum.splits dest: loop_body_Inr)
qed

lemma build_citations_passages:
  assumes "\<forall>c\<in>set chunks. is_passage c"
  shows "\<exists>cits. build_citations chunks = Inr cits \<and> length cits = length chunks \<and>
           (\<forall>j<length chunks. \<exists>part. loop_body j (chunks ! j) = Inr (part, cits ! j))"
proof -
  from loop_passages [OF assms, of 0 "[]" "[]"]
  obtain parts cits where r: "loop 0 chunks [] [] = Inr (parts, cits)"
    "length cits = length chunks"
    "\<forall>j<length chunks. loop_body j (chunks ! j) = Inr (parts ! j, cits ! j)"
    by auto
  then show ?thesis
    by (auto simp: build_citations_def)
qed

lemma build_citations_Inr:
  assumes "build_citations chunks = Inr cits"
  shows "\<forall>c\<in>set chunks. is_passage c"
  using assms loop_Inr_passages [of 0 chunks "[]" "[]"]
  by (auto simp: build_citations_def split: sum.splits)

section \<open>Properties of the query pipeline\<close>

text \<open>\<^verbatim>\<open>retrieve_chunks\<close> returns on every outcome of the retrieval service, after
  exactly one post; the post is the first call of the handler.\<close>

lemma retrieve_chunks_never_raises:
  "\<exists>result. retrieve_chunks cfg post q client_id top_k =
     (Inr result, [RetrievalPost (retrieval_request_of cfg q client_id top_k)])"
  by (simp add: retrieve_chunks_def Let_def split: sum.splits)

lemma query_calls_prefix:
  "\<exists>calls. snd (query cfg post create request) =
     RetrievalPost (retrieval_request_of cfg (req_query request) (req_client_id request) (req_top_k request)) # calls"
  by (auto simp: query_def retrieve_chunks_def Let_def split: sum.splits prod.splits)

text \<open>
  Claim C1. When the retrieval step yields an empty chunk list, the handler returns
  exactly the fixed answer "No relevant information found for your query." with an empty
  citation list, and the language model is not called: the only call made is the
  retrieval post.
\<close>

theorem empty_retrieval_short_circuit:
  assumes "fst (retrieve_chunks cfg post (req_query request) (req_client_id request) (req_top_k request)) = Inr retrieval_result"
    and "extract_chunks retrieval_result = Inr (PList [])"
  shows "query cfg post create request =
           (Inr \<lparr> answer = PStr ''No relevant information found for your query.'', citations = [] \<rparr>,
            [RetrievalPost (retrieval_request_of cfg (req_query request) (req_client_id request) (req_top_k request))])
         \<and> filter is_chat_create (snd (query cfg post create request)) = []"
  using assms
  by (auto simp: query_def retrieve_chunks_def Let_def no_relevant_information_def split: sum.splits)

theorem empty_retrieval_short_circuit_witness:
  "query example_config post_no_chunks create_fails example_request =
           (Inr \<lparr> answer = PStr ''No relevant information found for your query.'', citations = [] \<rparr>,
            [RetrievalPost (retrieval_request_of example_config ''What is the refund policy?'' ''client1'' 8)])
         \<and> filter is_chat_create (snd (query example_config post_no_chunks create_fails example_request)) = []"
proof -
  have r: "fst (retrieve_chunks example_config post_no_chunks (req_query example_request)
             (req_client_id example_request) (req_top_k example_request))
           = Inr (PDict [(''scored_chunks'', PList []), (''chunks'', PList [])])"
    by (simp add: retrieve_chunks_def retrieve_chunks_try_def post_no_chunks_def raise_for_status_def
        json_def map_scored_chunks_def Let_def)
  have e: "extract_chunks (PDict [(''scored_chunks'', PList []), (''chunks'', PList [])]) = Inr (PList [])"
    by (simp add: extract_chunks_def dict_get_def)
  show ?thesis
    using empty_retrieval_short_circuit [OF r e, of create_fails]
    by (simp add: example_request_def)
qed

text \<open>
  Claim C2. A network or service failure of the retrieval call does not raise out of
  \<^verbatim>\<open>retrieve_chunks\<close>: it returns \<^verbatim>\<open>{"chunks": []}\<close>, and the handler then
  returns the fixed "no relevant information" answer rather than an error.
\<close>

theorem retrieval_failure_degrades:
  assumes "service_failure post (retrieval_request_of cfg (req_query request) (req_client_id request) (req_top_k request))"
  shows "fst (retrieve_chunks cfg post (req_query request) (req_client_id request) (req_top_k request))
           = Inr (PDict [(''chunks'', PList [])])
         \<and> fst (query cfg post create request)
           = Inr \<lparr> answer = PStr ''No relevant information found for your query.'', citations = [] \<rparr>"
  using assms
  by (auto simp: service_failure_def query_def retrieve_chunks_def retrieve_chunks_try_def Let_def
      raise_for_status_def json_def extract_chunks_def dict_get_def no_relevant_information_def
      split: sum.splits option.splits if_splits)

theorem retrieval_failure_degrades_witness:
  "service_failure post_network_error (retrieval_request_of example_config ''What is the refund policy?'' ''client1'' 8)
   \<and> fst (retrieve_chunks example_config post_network_error ''What is the refund policy?'' ''client1'' 8)
           = Inr (PDict [(''chunks'', PList [])])
   \<and> fst (query example_config post_network_error create_fails example_request)
           = Inr \<lparr> answer = PStr ''No relevant information found for your query.'', citations = [] \<rparr>"
proof -
  have h: "service_failure post_network_error
     (retrieval_request_of example_config (req_query example_request) (req_client_id example_request) (req_top_k example_request))"
    by (simp add: service_failure_def post_network_error_def)
  show ?thesis
    using h retrieval_failure_degrades [OF h, of create_fails]
    by (simp add: example_request_def)
qed

text \<open>
  Claim C3. When retrieval returned a non-empty chunk sequence (any value that is not
  falsy) and every call the handler makes to the language model fails, the handler raises
  \<^verbatim>\<open>HTTPException(500)\<close>; it returns no answer of any kind.
\<close>

theorem synthesis_failure_is_hard_failure:
  assumes "fst (retrieve_chunks cfg post (req_query request) (req_client_id request) (req_top_k request)) = Inr retrieval_result"
    and "extract_chunks retrieval_result = Inr chunks"
    and "truthy chunks"
    and "\<forall>req. ChatCreate req \<in> set (snd (query cfg post create request)) \<longrightarrow> (\<exists>e. create req = Inl e)"
  shows "\<exists>e. fst (query cfg post create request) = Inl (HTTPException 500 (StrOf e))"
proof -
  obtain calls where rc: "retrieve_chunks cfg post (req_query request) (req_client_id request) (req_top_k request)
      = (Inr retrieval_result, calls)"
    using assms(1) by (cases "retrieve_chunks cfg post (req_query request) (req_client_id request) (req_top_k request)") simp
  show ?thesis
  proof (cases "py_iter chunks")
    case (Inl e)
    with rc assms(2,3) show ?thesis by (simp add: query_def generate_response_def)
  next
    case items: (Inr items)
    show ?thesis
    proof (cases "loop 0 items [] []")
      case (Inl e)
      with items rc assms(2,3) show ?thesis by (simp add: query_def generate_response_def)
    next
      case (Inr res)
      obtain context_parts cits where res: "res = (context_parts, cits)" by (cases res)
      define req where "req = \<lparr> model = OPENAI_MODEL cfg,
         messages = [(''system'', system_prompt),
                     (''user'', user_prompt (join (nl @ nl) context_parts) (req_query request))] \<rparr>"
      have g: "snd (generate_response cfg create (req_query request) chunks) = [ChatCreate req]"
        using items Inr res by (simp add: generate_response_def Let_def req_def)
      have "snd (query cfg post create request) = calls @ [ChatCreate req]"
        using rc assms(2,3) g
        by (cases "generate_response cfg create (req_query request) chunks")
           (auto simp: query_def split: sum.splits)
      with assms(4) obtain e where "create req = Inl e" by auto
      with items Inr res rc assms(2,3) show ?thesis
        by (simp add: query_def generate_response_def Let_def req_def)
    qed
  qed
qed

theorem synthesis_failure_is_hard_failure_witness:
  "truthy (PList example_chunks) \<and> (\<forall>req. \<exists>e. create_fails req = Inl e) \<and>
   fst (query example_config post_two_chunks create_fails example_request)
     = Inl (HTTPException 500 (StrOf OpenAIError))"
proof -
  have rc: "retrieve_chunks example_config post_two_chunks (req_query example_request)
             (req_client_id example_request) (req_top_k example_request)
           = (Inr (PDict [(''scored_chunks'', PList example_chunks), (''chunks'', PList example_chunks)]),
              [RetrievalPost (retrieval_request_of example_config (req_query example_request)
                 (req_client_id example_request) (req_top_k example_request))])"
    by (simp add: retrieve_chunks_def retrieve_chunks_try_def post_two_chunks_def raise_for_status_def
        json_def map_scored_chunks_def Let_def)
  then have r: "fst (retrieve_chunks example_config post_two_chunks (req_query example_request)
             (req_client_id example_request) (req_top_k example_request))
           = Inr (PDict [(''scored_chunks'', PList example_chunks), (''chunks'', PList example_chunks)])"
    by simp
  have e: "extract_chunks (PDict [(''scored_chunks'', PList example_chunks), (''chunks'', PList example_chunks)])
           = Inr (PList example_chunks)"
    by (simp add: extract_chunks_def dict_get_def)
  have t: "truthy (PList example_chunks)"
    by (simp add: example_chunks_def)
  have c: "\<forall>req. \<exists>e. create_fails req = Inl e"
    by (simp add: create_fails_def)
  then have c': "\<forall>req. ChatCreate req \<in> set (snd (query example_config post_two_chunks create_fails example_request))
      \<longrightarrow> (\<exists>e. create_fails req = Inl e)"
    by simp
  have p: "\<forall>c\<in>set example_chunks. is_passage c"
    by (simp add: example_chunks_def is_passage_def)
  obtain parts cits where l: "loop 0 example_chunks [] [] = Inr (parts, cits)"
    using loop_passages [OF p, of 0 "[]" "[]"] by auto
  have q: "fst (query example_config post_two_chunks create_fails example_request)
     = Inl (HTTPException 500 (StrOf OpenAIError))"
    using t by (simp add: query_def rc e generate_response_def l create_fails_def Let_def)
  from synthesis_failure_is_hard_failure [OF r e t c'] t c q show ?thesis
    by simp
qed

section \<open>Properties of the citations\<close>

text \<open>The citation at position \<open>j\<close> is the dictionary literal of the loop body, filled
  from the passage at position \<open>j\<close>.\<close>

lemma build_citations_nth:
  assumes "\<forall>c\<in>set chunks. is_passage c" and "j < length chunks" and "chunks ! j = PDict d"
  shows "\<exists>cits t. build_citations chunks = Inr cits \<and> length cits = length chunks \<and>
           dict_get d ''text'' (PStr []) = PStr t \<and>
           cits ! j =
             \<lparr> cit_id = int j + 1,
               document_id = dict_get d ''document_id'' PNone,
               chunk_id = dict_get d ''chunk_id'' PNone,
               cit_text = take 100 t @ ''...'',
               page_number = dict_get d ''page_number'' (PStr ''N/A''),
               score = dict_get d ''score'' (PInt 0) \<rparr>"
proof -
  from build_citations_passages [OF assms(1)]
  obtain cits where c: "build_citations chunks = Inr cits" "length cits = length chunks"
    "\<forall>j<length chunks. \<exists>part. loop_body j (chunks ! j) = Inr (part, cits ! j)"
    by blast
  from c(3) assms(2) obtain part where b: "loop_body j (chunks ! j) = Inr (part, cits ! j)"
    by blast
  from assms(1,2) have "is_passage (chunks ! j)" by simp
  from loop_body_passage [OF this, of j] assms(3) b c(1,2) show ?thesis
    by auto
qed

text \<open>
  Claim C4. For a sequence of \<open>n\<close> passages the citation loop returns exactly \<open>n\<close>
  citations, their ids are \<open>1, \<dots>, n\<close>, and the citation at position \<open>j\<close> carries the
  fields of the passage at position \<open>j\<close>: its document id, chunk id, page number and score,
  and the first 100 characters of its text. The input order is kept and nothing is sorted
  by score.
\<close>

theorem citations_numbered_in_input_order:
  assumes "\<forall>c\<in>set chunks. is_passage c"
  shows "\<exists>cits. build_citations chunks = Inr cits \<and> length cits = length chunks \<and>
           map cit_id cits = map int [1..<Suc (length chunks)] \<and>
           (\<forall>j<length chunks. \<exists>d t.
              chunks ! j = PDict d \<and>
              (case map_of d ''text'' of None \<Rightarrow> PStr [] | Some v \<Rightarrow> v) = PStr t \<and>
              cits ! j =
                \<lparr> cit_id = int j + 1,
                  document_id = (case map_of d ''document_id'' of None \<Rightarrow> PNone | Some v \<Rightarrow> v),
                  chunk_id = (case map_of d ''chunk_id'' of None \<Rightarrow> PNone | Some v \<Rightarrow> v),
                  cit_text = take 100 t @ ''...'',
                  page_number = (case map_of d ''page_number'' of None \<Rightarrow> PStr ''N/A'' | Some v \<Rightarrow> v),
                  score = (case map_of d ''score'' of None \<Rightarrow> PInt 0 | Some v \<Rightarrow> v) \<rparr>)"
proof -
  from build_citations_passages [OF assms]
  obtain cits where c: "build_citations chunks = Inr cits" "length cits = length chunks"
    by blast
  have nth: "\<exists>d t.
              chunks ! j = PDict d \<and>
              (case map_of d ''text'' of None \<Rightarrow> PStr [] | Some v \<Rightarrow> v) = PStr t \<and>
              cits ! j =
                \<lparr> cit_id = int j + 1,
                  document_id = (case map_of d ''document_id'' of None \<Rightarrow> PNone | Some v \<Rightarrow> v),
                  chunk_id = (case map_of d ''chunk_id'' of None \<Rightarrow> PNone | Some v \<Rightarrow> v),
                  cit_text = take 100 t @ ''...'',
                  page_number = (case map_of d ''page_number'' of None \<Rightarrow> PStr ''N/A'' | Some v \<Rightarrow> v),
                  score = (case map_of d ''score'' of None \<Rightarrow> PInt 0 | Some v \<Rightarrow> v) \<rparr>"
    if j: "j < length chunks" for j
  proof -
    from assms j have "is_passage (chunks ! j)" by simp
    then obtain d where d: "chunks ! j = PDict d"
      by (auto simp: is_passage_def split: pyval.splits)
    from build_citations_nth [OF assms j d] c(1) d show ?thesis
      by (auto simp: dict_get_def)
  qed
  have "map cit_id cits = map int [1..<Suc (length chunks)]"
  proof (rule nth_equalityI)
    show "length (map cit_id cits) = length (map int [1..<Suc (length chunks)])"
      using c(2) by (simp del: upt_Suc)
  next
    fix j assume "j < length (map cit_id cits)"
    then have j: "j < length chunks" using c(2) by simp
    from nth [OF j] have "cit_id (cits ! j) = int j + 1" by auto
    moreover have "[1..<Suc (length chunks)] ! j = 1 + j"
      using j by (simp del: upt_Suc)
    ultimately show "map cit_id cits ! j = map int [1..<Suc (length chunks)] ! j"
      using j c(2) by (simp del: upt_Suc)
  qed
  with c nth show ?thesis by blast
qed

theorem citations_numbered_in_input_order_witness:
  "list_all is_passage example_chunks \<and>
   build_citations example_chunks =
     Inr [\<lparr> cit_id = 1, document_id = PNone, chunk_id = PNone,
            cit_text = ''Refunds are issued within 30 days....'',
            page_number = PStr ''N/A'', score = PFloat 0.9 \<rparr>,
          \<lparr> cit_id = 2, document_id = PStr ''doc-2'', chunk_id = PNone, cit_text = ''...'',
            page_number = PNone, score = PInt 0 \<rparr>]"
proof -
  have p: "\<forall>c\<in>set example_chunks. is_passage c"
    by (simp add: example_chunks_def is_passage_def)
  have n: "length example_chunks = 2"
    by (simp add: example_chunks_def)
  have d0: "example_chunks ! 0 =
      PDict [(''text'', PStr ''Refunds are issued within 30 days.''), (''score'', PFloat 0.9)]"
    by (simp add: example_chunks_def)
  have d1: "example_chunks ! 1 =
      PDict [(''text'', PStr ''''), (''document_id'', PStr ''doc-2''), (''page_number'', PNone)]"
    by (simp add: example_chunks_def)
  from citations_numbered_in_input_order [OF p]
  obtain cits where c: "build_citations example_chunks = Inr cits" "length cits = 2"
    and nth: "\<forall>j<2. \<exists>d t.
              example_chunks ! j = PDict d \<and>
              (case map_of d ''text'' of None \<Rightarrow> PStr [] | Some v \<Rightarrow> v) = PStr t \<and>
              cits ! j =
                \<lparr> cit_id = int j + 1,
                  document_id = (case map_of d ''document_id'' of None \<Rightarrow> PNone | Some v \<Rightarrow> v),
                  chunk_id = (case map_of d ''chunk_id'' of None \<Rightarrow> PNone | Some v \<Rightarrow> v),
                  cit_text = take 100 t @ ''...'',
                  page_number = (case map_of d ''page_number'' of None \<Rightarrow> PStr ''N/A'' | Some v \<Rightarrow> v),
                  score = (case map_of d ''score'' of None \<Rightarrow> PInt 0 | Some v \<Rightarrow> v) \<rparr>"
    unfolding n by blast
  have z0: "(0::nat) < 2" and z1: "(1::nat) < 2"
    by simp_all
  from nth [rule_format, OF z0] d0 have c0: "cits ! 0 =
      \<lparr> cit_id = 1, document_id = PNone, chunk_id = PNone,
        cit_text = ''Refunds are issued within 30 days....'',
        page_number = PStr ''N/A'', score = PFloat 0.9 \<rparr>"
    by auto
  from nth [rule_format, OF z1] d1 have c1: "cits ! 1 =
      \<lparr> cit_id = 2, document_id = PStr ''doc-2'', chunk_id = PNone,
        cit_text = ''...'', page_number = PNone, score = PInt 0 \<rparr>"
    by auto
  from c(2) obtain a b where ab: "cits = [a, b]"
    by (cases cits; cases "tl cits"; auto)
  with c0 c1 c(1) p show ?thesis
    by (simp add: list_all_iff)
qed

text \<open>
  Claim C6, as stated, fails: a passage whose text is shorter than the preview length of
  100 characters does not get its text as-is, the marker \<^verbatim>\<open>"..."\<close> is appended to it.
\<close>

theorem short_text_marker_counterexample:
  "length ''abc'' < 100 \<and>
   build_citations [PDict [(''text'', PStr ''abc'')]] =
     Inr [\<lparr> cit_id = 1, document_id = PNone, chunk_id = PNone, cit_text = ''abc...'',
            page_number = PStr ''N/A'', score = PInt 0 \<rparr>]"
  by (simp add: build_citations_def loop_body_def dict_get_def)

text \<open>
  Claim C6, amended. For every passage the preview is the first 100 characters of its
  text followed by the marker \<^verbatim>\<open>"..."\<close>; the marker is appended unconditionally, so
  a text of at most 100 characters appears whole, followed by the marker.
\<close>

theorem preview_is_prefix_with_marker:
  assumes "\<forall>c\<in>set chunks. is_passage c" and "j < length chunks" and "chunks ! j = PDict d"
    and "dict_get d ''text'' (PStr []) = PStr t"
  shows "\<exists>cits. build_citations chunks = Inr cits \<and> length cits = length chunks \<and>
           cit_text (cits ! j) = take 100 t @ ''...'' \<and>
           (length t \<le> 100 \<longrightarrow> cit_text (cits ! j) = t @ ''...'')"
  using build_citations_nth [OF assms(1,2,3)] assms(4) by auto

theorem preview_is_prefix_with_marker_witness:
  "list_all is_passage example_chunks \<and> (0::nat) < length example_chunks \<and>
   length ''Refunds are issued within 30 days.'' \<le> 100 \<and>
   (\<exists>cits. build_citations example_chunks = Inr cits \<and> length cits = 2 \<and>
      cit_text (cits ! 0) = ''Refunds are issued within 30 days....'')"
proof -
  have p: "\<forall>c\<in>set example_chunks. is_passage c"
    by (simp add: example_chunks_def is_passage_def)
  have n: "0 < length example_chunks"
    by (simp add: example_chunks_def)
  have d: "example_chunks ! 0 = PDict [(''text'', PStr ''Refunds are issued within 30 days.''), (''score'', PFloat 0.9)]"
    by (simp add: example_chunks_def)
  have t: "dict_get [(''text'', PStr ''Refunds are issued within 30 days.''), (''score'', PFloat 0.9)] ''text'' (PStr [])
     = PStr ''Refunds are issued within 30 days.''"
    by (simp add: dict_get_def)
  have l: "length example_chunks = 2"
    by (simp add: example_chunks_def)
  from preview_is_prefix_with_marker [OF p n d t] p n show ?thesis
    unfolding l by (simp add: list_all_iff)
qed

text \<open>
  Claim C7. Whatever the length of a passage's text, the preview of its citation has at
  most 100 characters plus the length of the marker \<^verbatim>\<open>"..."\<close>.
\<close>

theorem preview_length_bounded:
  assumes "build_citations chunks = Inr cits"
  shows "\<forall>c\<in>set cits. length (cit_text c) \<le> 100 + length ''...''"
proof
  fix c assume "c \<in> set cits"
  then obtain j where j: "j < length cits" "cits ! j = c"
    by (auto simp: in_set_conv_nth)
  have p: "\<forall>c\<in>set chunks. is_passage c"
    using assms by (rule build_citations_Inr)
  from build_citations_passages [OF p] assms
  have len: "length cits = length chunks"
    and nth: "\<forall>j<length chunks. \<exists>part. loop_body j (chunks ! j) = Inr (part, cits ! j)"
    by auto
  from nth j len obtain part where b: "loop_body j (chunks ! j) = Inr (part, c)"
    by auto
  from p j len have "is_passage (chunks ! j)" by simp
  from loop_body_passage [OF this, of j] b
  obtain t where "cit_text c = take 100 t @ ''...''"
    by auto
  then show "length (cit_text c) \<le> 100 + length ''...''"
    by simp
qed

theorem preview_length_bounded_witness:
  "build_citations [PDict [(''text'', PStr '''')], PDict [(''text'', PStr (replicate 10000 CHR ''x''))]] =
     Inr [\<lparr> cit_id = 1, document_id = PNone, chunk_id = PNone, cit_text = ''...'',
            page_number = PStr ''N/A'', score = PInt 0 \<rparr>,
          \<lparr> cit_id = 2, document_id = PNone, chunk_id = PNone,
            cit_text = replicate 100 CHR ''x'' @ ''...'',
            page_number = PStr ''N/A'', score = PInt 0 \<rparr>]
   \<and> length (''...'' :: string) \<le> 100 + length ''...''
   \<and> length (replicate 100 CHR ''x'' @ ''...'') \<le> 100 + length ''...''"
proof -
  have b: "build_citations [PDict [(''text'', PStr '''')], PDict [(''text'', PStr (replicate 10000 CHR ''x''))]] =
     Inr [\<lparr> cit_id = 1, document_id = PNone, chunk_id = PNone, cit_text = ''...'',
            page_number = PStr ''N/A'', score = PInt 0 \<rparr>,
          \<lparr> cit_id = 2, document_id = PNone, chunk_id = PNone,
            cit_text = replicate 100 CHR ''x'' @ ''...'',
            page_number = PStr ''N/A'', score = PInt 0 \<rparr>]"
    by (simp add: build_citations_def loop_body_def dict_get_def)
  from preview_length_bounded [OF b] b show ?thesis
    by simp
qed

text \<open>
  Claim C8, as stated, fails: the page number of a returned citation can be null, namely
  when the passage carries the key \<^verbatim>\<open>page_number\<close> with the value null.
\<close>

theorem null_page_number_counterexample:
  "build_citations [PDict [(''text'', PStr ''abc''), (''page_number'', PNone)]] =
     Inr [\<lparr> cit_id = 1, document_id = PNone, chunk_id = PNone, cit_text = ''abc...'',
            page_number = PNone, score = PInt 0 \<rparr>]"
  by (simp add: build_citations_def loop_body_def dict_get_def)

text \<open>
  Claim C8, amended. For every passage that has no \<^verbatim>\<open>page_number\<close> key the citation's
  page number is the string \<^verbatim>\<open>"N/A"\<close>; a page number that is present is copied to the
  citation unchanged, whatever its value.
\<close>

theorem absent_page_number_is_NA:
  assumes "\<forall>c\<in>set chunks. is_passage c" and "j < length chunks" and "chunks ! j = PDict d"
  shows "\<exists>cits. build_citations chunks = Inr cits \<and> length cits = length chunks \<and>
           page_number (cits ! j) =
             (case map_of d ''page_number'' of None \<Rightarrow> PStr ''N/A'' | Some v \<Rightarrow> v)"
  using build_citations_nth [OF assms] by (auto simp: dict_get_def)

theorem absent_page_number_is_NA_witness:
  "list_all is_passage example_chunks \<and> (0::nat) < length example_chunks \<and>
   (\<exists>cits. build_citations example_chunks = Inr cits \<and> length cits = 2 \<and>
      page_number (cits ! 0) = PStr ''N/A'')"
proof -
  have p: "\<forall>c\<in>set example_chunks. is_passage c"
    by (simp add: example_chunks_def is_passage_def)
  have n: "0 < length example_chunks"
    by (simp add: example_chunks_def)
  have d: "example_chunks ! 0 = PDict [(''text'', PStr ''Refunds are issued within 30 days.''), (''score'', PFloat 0.9)]"
    by (simp add: example_chunks_def)
  have l: "length example_chunks = 2"
    by (simp add: example_chunks_def)
  from absent_page_number_is_NA [OF p n d] p n show ?thesis
    unfolding l by (simp add: list_all_iff)
qed

text \<open>
  Claim C10. For every passage that lacks the key \<^verbatim>\<open>document_id\<close> or \<^verbatim>\<open>chunk_id\<close>, the
  citation is still returned, with \<^verbatim>\<open>None\<close> in that field; nothing is raised.
\<close>

theorem missing_ids_become_None:
  assumes "\<forall>c\<in>set chunks. is_passage c" and "j < length chunks" and "chunks ! j = PDict d"
  shows "\<exists>cits. build_citations chunks = Inr cits \<and> length cits = length chunks \<and>
           (map_of d ''document_id'' = None \<longrightarrow> document_id (cits ! j) = PNone) \<and>
           (map_of d ''chunk_id'' = None \<longrightarrow> chunk_id (cits ! j) = PNone)"
  using build_citations_nth [OF assms] by (auto simp: dict_get_def)

theorem missing_ids_become_None_witness:
  "list_all is_passage example_chunks \<and> (0::nat) < length example_chunks \<and>
   map_of [(''text'', PStr ''Refunds are issued within 30 days.''), (''score'', PFloat 0.9)] ''document_id'' = None \<and>
   map_of [(''text'', PStr ''Refunds are issued within 30 days.''), (''score'', PFloat 0.9)] ''chunk_id'' = None \<and>
   (\<exists>cits. build_citations example_chunks = Inr cits \<and> length cits = 2 \<and>
      document_id (cits ! 0) = PNone \<and> chunk_id (cits ! 0) = PNone)"
proof -
  have p: "\<forall>c\<in>set example_chunks. is_passage c"
    by (simp add: example_chunks_def is_passage_def)
  have n: "0 < length example_chunks"
    by (simp add: example_chunks_def)
  have d: "example_chunks ! 0 = PDict [(''text'', PStr ''Refunds are issued within 30 days.''), (''score'', PFloat 0.9)]"
    by (simp add: example_chunks_def)
  have l: "length example_chunks = 2"
    by (simp add: example_chunks_def)
  from missing_ids_become_None [OF p n d] p n show ?thesis
    unfolding l by (simp add: list_all_iff)
qed

section \<open>Properties of the tenant scope and of request validation\<close>

text \<open>The calls of \<^verbatim>\<open>generate_response\<close> go to the language model only, so the one
  retrieval post of the handler is the one \<^verbatim>\<open>retrieve_chunks\<close> makes.\<close>

lemma generate_response_calls:
  "\<forall>call\<in>set (snd (generate_response cfg create q chunks)). is_chat_create call"
  by (auto simp: generate_response_def Let_def split: sum.splits prod.splits)

lemma query_retrieval_calls:
  assumes "RetrievalPost req \<in> set (snd (query cfg post create request))"
  shows "req = retrieval_request_of cfg (req_query request) (req_client_id request) (req_top_k request)"
proof -
  obtain result where rc: "retrieve_chunks cfg post (req_query request) (req_client_id request) (req_top_k request)
     = (Inr result, [RetrievalPost (retrieval_request_of cfg (req_query request) (req_client_id request) (req_top_k request))])"
    using retrieve_chunks_never_raises by blast
  show ?thesis
  proof (cases "extract_chunks result")
    case (Inl e)
    with rc assms show ?thesis by (simp add: query_def)
  next
    case (Inr chunks)
    show ?thesis
    proof (cases "truthy chunks")
      case False
      with rc Inr assms show ?thesis by (simp add: query_def)
    next
      case True
      obtain gr calls' where g: "generate_response cfg create (req_query request) chunks = (gr, calls')"
        by (cases "generate_response cfg create (req_query request) chunks")
      with generate_response_calls [of cfg create "req_query request" chunks]
      have "\<forall>call\<in>set calls'. is_chat_create call" by simp
      then have "RetrievalPost req \<notin> set calls'" by auto
      with rc Inr True g assms show ?thesis
        by (cases gr) (auto simp: query_def)
    qed
  qed
qed

text \<open>
  Claim C9. The partition is \<^verbatim>\<open>"client_"\<close> followed by the client id; it is a function
  of the client id alone, equal partitions come from equal client ids only, and every
  retrieval post, of \<^verbatim>\<open>retrieve_chunks\<close> and of the handler, carries the partition of
  the request's client id, which is never the client id itself.
\<close>

theorem tenant_scope:
  "partition_scope c = ''client_'' @ c
   \<and> (partition_scope a = partition_scope b) = (a = b)
   \<and> partition_scope c \<noteq> c
   \<and> p_partition (json_payload (retrieval_request_of cfg q c k)) = partition_scope c
   \<and> (\<forall>req. RetrievalPost req \<in> set (snd (retrieve_chunks cfg post q c k)) \<longrightarrow>
         p_partition (json_payload req) = partition_scope c)
   \<and> (\<forall>req. RetrievalPost req \<in> set (snd (query cfg post create request)) \<longrightarrow>
         p_partition (json_payload req) = partition_scope (req_client_id request))"
proof (intro conjI allI impI)
  show "partition_scope c = ''client_'' @ c"
    by (simp add: partition_scope_def)
  show "(partition_scope a = partition_scope b) = (a = b)"
    by (simp add: partition_scope_def)
  have "length (partition_scope c) \<noteq> length c"
    by (simp add: partition_scope_def)
  then show "partition_scope c \<noteq> c"
    by auto
  show "p_partition (json_payload (retrieval_request_of cfg q c k)) = partition_scope c"
    by (simp add: retrieval_request_of_def)
next
  fix req assume "RetrievalPost req \<in> set (snd (retrieve_chunks cfg post q c k))"
  then show "p_partition (json_payload req) = partition_scope c"
    by (simp add: retrieve_chunks_def Let_def retrieval_request_of_def)
next
  fix req assume "RetrievalPost req \<in> set (snd (query cfg post create request))"
  then have "req = retrieval_request_of cfg (req_query request) (req_client_id request) (req_top_k request)"
    by (rule query_retrieval_calls)
  then show "p_partition (json_payload req) = partition_scope (req_client_id request)"
    by (simp add: retrieval_request_of_def)
qed

theorem tenant_scope_witness:
  "partition_scope ''client1'' = ''client_client1''
   \<and> partition_scope ''client1'' \<noteq> partition_scope ''client2''
   \<and> RetrievalPost (retrieval_request_of example_config ''What is the refund policy?'' ''client1'' 8)
       \<in> set (snd (query example_config post_no_chunks create_fails example_request))
   \<and> p_partition (json_payload (retrieval_request_of example_config ''What is the refund policy?'' ''client1'' 8))
       = ''client_client1''"
proof -
  have m: "RetrievalPost (retrieval_request_of example_config ''What is the refund policy?'' ''client1'' 8)
       \<in> set (snd (query example_config post_no_chunks create_fails example_request))"
    by (simp add: query_def retrieve_chunks_def retrieve_chunks_try_def post_no_chunks_def
        raise_for_status_def json_def map_scored_chunks_def Let_def extract_chunks_def dict_get_def
        example_request_def)
  from tenant_scope [of "''client1''" "''client1''" "''client2''" example_config
      "''What is the refund policy?''" 8 post_no_chunks create_fails example_request] m
  show ?thesis
    by (simp add: example_request_def partition_scope_def)
qed

text \<open>
  Claim C5, as stated, fails: a request whose query text is the empty string passes the
  validation of the request model and is sent to the retrieval service.
\<close>

theorem empty_query_reaches_retrieval_counterexample:
  "query_endpoint example_config post_network_error create_fails
     \<lparr> raw_query = Some '''', raw_client_id = Some ''client1'', raw_top_k = None \<rparr>
   = (Inr \<lparr> answer = PStr ''No relevant information found for your query.'', citations = [] \<rparr>,
      [RetrievalPost (retrieval_request_of example_config '''' ''client1'' 8)])"
  by (simp add: query_endpoint_def verify_config_def validate_config_def unset_def example_config_def
      validate_QueryRequest_def query_def retrieve_chunks_def retrieve_chunks_try_def
      post_network_error_def Let_def extract_chunks_def dict_get_def no_relevant_information_def)

text \<open>
  Claim C5, amended. A request whose \<^verbatim>\<open>query\<close> or \<^verbatim>\<open>client_id\<close> field is missing is
  rejected before any call to an external service. A request that has both fields,
  whatever their text (the empty string included), reaches the handler when the
  configuration is valid, and the handler posts it to the retrieval service.
\<close>

theorem missing_field_rejected_before_external_calls:
  "(raw_query raw = None \<or> raw_client_id raw = None \<longrightarrow>
      (\<exists>e. query_endpoint cfg post create raw = (Inl e, [])))
   \<and> (validate_config cfg = (True, None) \<and> raw_query raw' = Some q \<and> raw_client_id raw' = Some c \<longrightarrow>
      (\<exists>calls. snd (query_endpoint cfg post create raw') =
         RetrievalPost (retrieval_request_of cfg q c (case raw_top_k raw' of None \<Rightarrow> 8 | Some k \<Rightarrow> k)) # calls))"
proof (intro conjI impI)
  assume "raw_query raw = None \<or> raw_client_id raw = None"
  then have "validate_QueryRequest raw = None"
    by (auto simp: validate_QueryRequest_def split: option.splits)
  then show "\<exists>e. query_endpoint cfg post create raw = (Inl e, [])"
    by (simp add: query_endpoint_def split: sum.splits)
next
  assume a: "validate_config cfg = (True, None) \<and> raw_query raw' = Some q \<and> raw_client_id raw' = Some c"
  define request where "request = \<lparr> req_query = q, req_client_id = c,
      req_top_k = (case raw_top_k raw' of None \<Rightarrow> 8 | Some k \<Rightarrow> k) \<rparr>"
  from a have v: "validate_QueryRequest raw' = Some request"
    by (simp add: validate_QueryRequest_def request_def)
  from a have "verify_config cfg = Inr True"
    by (simp add: verify_config_def)
  with v have "query_endpoint cfg post create raw' = query cfg post create request"
    by (simp add: query_endpoint_def)
  with query_calls_prefix [of cfg post create request]
  show "\<exists>calls. snd (query_endpoint cfg post create raw') =
         RetrievalPost (retrieval_request_of cfg q c (case raw_top_k raw' of None \<Rightarrow> 8 | Some k \<Rightarrow> k)) # calls"
    by (simp add: request_def)
qed

theorem missing_field_rejected_before_external_calls_witness:
  "(\<exists>e. query_endpoint example_config post_two_chunks create_fails
           \<lparr> raw_query = Some ''What is the refund policy?'', raw_client_id = None, raw_top_k = None \<rparr>
         = (Inl e, []))
   \<and> (\<exists>calls. snd (query_endpoint example_config post_two_chunks create_fails
           \<lparr> raw_query = Some '''', raw_client_id = Some ''client1'', raw_top_k = None \<rparr>) =
         RetrievalPost (retrieval_request_of example_config '''' ''client1'' 8) # calls)"
proof -
  have v: "validate_config example_config = (True, None)"
    by (simp add: validate_config_def unset_def example_config_def)
  from missing_field_rejected_before_external_calls
    [of "\<lparr> raw_query = Some ''What is the refund policy?'', raw_client_id = None, raw_top_k = None \<rparr>"
        example_config post_two_chunks create_fails
        "\<lparr> raw_query = Some '''', raw_client_id = Some ''client1'', raw_top_k = None \<rparr>"
        "''''" "''client1''"] v
  show ?thesis by simp
qed

end
